theory Spec2Isabelle
  imports Complex_Main
begin

text \<open>
  A model of \<open>cutesy-agent-router-refactor.py\<close>: the agent on a pseudo-terminal
  (\<open>PTYAgent\<close>: \<open>_process_output\<close>, \<open>start\<close>, \<open>stop\<close>, \<open>send_command\<close>,
  \<open>get_output\<close>) and the bridge to the chat (\<open>AgentChatBridge\<close>: \<open>handle_command\<close>,
  \<open>handle_message\<close>, \<open>_output_monitor\<close>). Each method is a function from the state before
  to the state after; what the operating system, the child process and the clock do is an
  argument of the function. The threads are not interleaved: each call is one step.
\<close>

section \<open>Python text\<close>

text \<open>
  A Python \<open>str\<close> is a sequence of Unicode code points, and \<open>len\<close> counts code
  points. The source's glyph literals lie beyond one byte, so a character is its code
  point and a text is a list of them. \<open>lit\<close> turns an ASCII literal into such a text.
\<close>

type_synonym pychar = nat
type_synonym pystr = "pychar list"

definition lit :: "string \<Rightarrow> pystr" where
  "lit s = map of_char s"

text \<open>
  \<open>str.isspace\<close> on one character: the code points Python treats as whitespace in
  \<open>strip()\<close>, \<open>split()\<close> and the pattern class \<open>\s\<close>.
\<close>

definition isspace :: "pychar \<Rightarrow> bool" where
  "isspace c \<longleftrightarrow>
     (9 \<le> c \<and> c \<le> 13) \<or> (28 \<le> c \<and> c \<le> 32) \<or> c = 133 \<or> c = 160 \<or> c = 5760 \<or>
     (8192 \<le> c \<and> c \<le> 8202) \<or> c = 8232 \<or> c = 8233 \<or> c = 8239 \<or> c = 8287 \<or> c = 12288"

definition strip :: "pystr \<Rightarrow> pystr" where
  "strip s = rev (dropWhile isspace (rev (dropWhile isspace s)))"

text \<open>\<open>needle in hay\<close> on texts.\<close>

fun substr_in :: "pystr \<Rightarrow> pystr \<Rightarrow> bool" where
  "substr_in needle [] = (needle = [])"
| "substr_in needle (c # cs) = (take (length needle) (c # cs) = needle \<or> substr_in needle cs)"

text \<open>\<open>s.split()\<close>: the maximal runs of non-whitespace; \<open>cur\<close> is the run being read, reversed.\<close>

fun split_acc :: "pystr \<Rightarrow> pystr \<Rightarrow> pystr list" where
  "split_acc cur [] = (if cur = [] then [] else [rev cur])"
| "split_acc cur (c # cs) =
     (if isspace c then (if cur = [] then split_acc [] cs else rev cur # split_acc [] cs)
      else split_acc (c # cur) cs)"

definition split :: "pystr \<Rightarrow> pystr list" where
  "split s = split_acc [] s"




section \<open>Bounded deques\<close>

text \<open>
  \<open>collections.deque(maxlen=n)\<close> as a list, oldest element first. An append to a full
  deque drops from the other end.
\<close>

definition deque_append :: "nat \<Rightarrow> 'a list \<Rightarrow> 'a \<Rightarrow> 'a list" where
  "deque_append maxlen q x = drop (length (q @ [x]) - maxlen) (q @ [x])"

definition deque_appendleft :: "nat \<Rightarrow> 'a \<Rightarrow> 'a list \<Rightarrow> 'a list" where
  "deque_appendleft maxlen x q = take maxlen (x # q)"

section \<open>strip_ansi_codes\<close>

text \<open>
  \<^verbatim>\<open>re.sub(r"\x1B(?:[@-Z\\-_]|\[[0-?]*[ -/]*[@-~])", "", text)\<close>

  After ESC (27) the pattern takes either one character of \<open>[@-Z\\-_]\<close>, or \<open>[\<close> (91),
  a run of \<open>[0-?]\<close>, a run of \<open>[ -/]\<close> and one character of \<open>[@-~]\<close>. The three classes
  are disjoint, so the greedy runs are the maximal ones and giving characters back never
  helps. \<open>escape_len\<close> is the length of the match after the ESC, if there is one.
\<close>

definition fe_char :: "pychar \<Rightarrow> bool" where
  "fe_char c \<longleftrightarrow> (64 \<le> c \<and> c \<le> 90) \<or> (92 \<le> c \<and> c \<le> 95)"

definition param_char :: "pychar \<Rightarrow> bool" where
  "param_char c \<longleftrightarrow> 48 \<le> c \<and> c \<le> 63"

definition inter_char :: "pychar \<Rightarrow> bool" where
  "inter_char c \<longleftrightarrow> 32 \<le> c \<and> c \<le> 47"

definition final_char :: "pychar \<Rightarrow> bool" where
  "final_char c \<longleftrightarrow> 64 \<le> c \<and> c \<le> 126"

definition escape_len :: "pystr \<Rightarrow> nat option" where
  "escape_len cs =
     (case cs of
        [] \<Rightarrow> None
      | d # ds \<Rightarrow>
          if fe_char d then Some 1
          else if d = 91 then
            (let ps = takeWhile param_char ds;
                 is = takeWhile inter_char (dropWhile param_char ds)
             in case dropWhile inter_char (dropWhile param_char ds) of
                  [] \<Rightarrow> None
                | f # fs \<Rightarrow> if final_char f then Some (length ps + length is + 2) else None)
          else None)"

function strip_ansi_codes :: "pystr \<Rightarrow> pystr" where
  "strip_ansi_codes [] = []"
| "strip_ansi_codes (c # cs) =
     (if c = 27 then
        (case escape_len cs of
           Some n \<Rightarrow> strip_ansi_codes (drop n cs)
         | None \<Rightarrow> c # strip_ansi_codes cs)
      else c # strip_ansi_codes cs)"
  by pat_completeness auto
termination
  by (relation "measure length") auto

section \<open>Messages\<close>

datatype message_type = USER_INPUT | AGENT_OUTPUT | COMMAND | ERROR

text \<open>
  \<open>Message\<close>: the fields that the code reads back. The timestamp (the wall clock at
  construction) and the metadata dictionary (always empty here) are written once and
  never read.
\<close>

record message =
  mtype :: message_type
  content :: pystr
  sender :: pystr

section \<open>PTYAgent\<close>

text \<open>
  The configuration dictionary: a key that is absent is \<open>None\<close>, and \<open>cfg_get\<close> is
  \<open>config.get(key, default)\<close>.
\<close>

record agent_config =
  cfg_name :: "pystr option"
  cfg_welcome_keywords :: "pystr list option"
  cfg_mode_keywords :: "pystr list option"
  cfg_ui_indicators :: "pystr list option"
  cfg_response_markers :: "pystr list option"
  cfg_repetitive_ui_markers :: "pystr list option"

definition cfg_get :: "'a option \<Rightarrow> 'a \<Rightarrow> 'a" where
  "cfg_get v d = (case v of None \<Rightarrow> d | Some x \<Rightarrow> x)"

text \<open>
  The agent's fields. \<open>terminal\<close> is the far side of \<open>master_fd\<close>: all that has been
  written to it, in order, as text (the UTF-8 encoding is not expanded).
  \<open>send_command_calls\<close> and \<open>start_calls\<close> are not fields of the
  class: they log the calls of \<open>send_command\<close> (with the argument) and of \<open>start\<close>, the
  way a mock would, so that "is called" can be stated.
\<close>

record pty_agent =
  config :: agent_config
  is_running_flag :: bool
  waiting_for_input :: bool
  input_prompt :: pystr
  last_prompt_time :: real
  output_queue :: "pystr list"
  stop_reading :: bool
  terminal :: pystr
  send_command_calls :: "pystr list"
  start_calls :: nat

definition name :: "pty_agent \<Rightarrow> pystr" where
  "name a = cfg_get (cfg_name (config a)) (lit ''Agent'')"

definition PTYAgent :: "agent_config \<Rightarrow> pty_agent" where
  "PTYAgent cfg =
     \<lparr>config = cfg, is_running_flag = False, waiting_for_input = False, input_prompt = [],
      last_prompt_time = 0, output_queue = [], stop_reading = False, terminal = [],
      send_command_calls = [], start_calls = 0\<rparr>"

definition is_running :: "pty_agent \<Rightarrow> bool" where
  "is_running a = is_running_flag a"

subsection \<open>send_command\<close>

text \<open>
  What the statement \<open>os.write(self.master_fd, f"{command}\r\n".encode())\<close> does is the
  environment's choice: it returns, and the terminal has the text (a write that returns is
  taken to have written all of it), or it raises (the encoding or the write), with the
  exception's text.
\<close>

datatype write_outcome = Written | Raises pystr

text \<open>The three return sites: "Command sent", "Error: Agent not running", "Error: " + the exception.\<close>

datatype send_result = Command_sent | Error_not_running | Error_exception pystr

definition send_command :: "pty_agent \<Rightarrow> pystr \<Rightarrow> write_outcome \<Rightarrow> send_result \<times> pty_agent" where
  "send_command a command w =
     (let a0 = a\<lparr>send_command_calls := send_command_calls a @ [command]\<rparr> in
      if \<not> is_running_flag a0 then (Error_not_running, a0)
      else
        (let a1 = a0\<lparr>waiting_for_input := False, input_prompt := []\<rparr> in
         case w of
           Written \<Rightarrow> (Command_sent, a1\<lparr>terminal := terminal a1 @ command @ [13, 10]\<rparr>)
         | Raises e \<Rightarrow> (Error_exception e, a1)))"

subsection \<open>get_output\<close>

text \<open>
  The loop of \<open>get_output\<close>: while the queue is not empty and \<open>combined\<close> is shorter than
  4000, pop the oldest chunk; if \<open>combined + chunk\<close> would be longer than 4000, push the
  chunk back at the left and stop; else add it. The result is \<open>combined\<close> and the queue.
\<close>

fun drain :: "pystr \<Rightarrow> pystr list \<Rightarrow> pystr \<times> pystr list" where
  "drain combined [] = (combined, [])"
| "drain combined (chunk # q) =
     (if length combined < 4000 then
        (if length (combined @ chunk) > 4000 then (combined, deque_appendleft 100 chunk q)
         else drain (combined @ chunk) q)
      else (combined, chunk # q))"

definition get_output :: "pty_agent \<Rightarrow> message option \<times> pty_agent" where
  "get_output a =
     (if output_queue a = [] then (None, a)
      else
        (let (combined, q) = drain [] (output_queue a);
             a' = a\<lparr>output_queue := q\<rparr>
         in if strip combined \<noteq> []
            then (Some \<lparr>mtype = AGENT_OUTPUT, content = strip combined, sender = name a\<rparr>, a')
            else (None, a')))"

text \<open>
  A caller that polls: \<open>n\<close> calls of \<open>get_output\<close> in a row, nothing arriving in
  between, with what each call returned.
\<close>

fun get_outputs :: "nat \<Rightarrow> pty_agent \<Rightarrow> message option list \<times> pty_agent" where
  "get_outputs 0 a = ([], a)"
| "get_outputs (Suc n) a =
     (let (m, a') = get_output a; (ms, a'') = get_outputs n a' in (m # ms, a''))"

text \<open>What \<open>get_output\<close> returns for a given \<open>combined\<close> text (its last four lines).\<close>

definition as_message :: "pty_agent \<Rightarrow> pystr \<Rightarrow> message option" where
  "as_message a combined =
     (if strip combined = [] then None
      else Some \<lparr>mtype = AGENT_OUTPUT, content = strip combined, sender = name a\<rparr>)"

subsection \<open>start and stop\<close>

text \<open>
  \<open>start\<close>: whether the pseudo-terminal opens, the child spawns and is still alive after the
  grace interval is the environment's choice \<open>spawn_ok\<close>; any failure is caught and gives
  \<open>False\<close>.
\<close>

definition start :: "pty_agent \<Rightarrow> bool \<Rightarrow> bool \<times> pty_agent" where
  "start a spawn_ok =
     (let a0 = a\<lparr>start_calls := start_calls a + 1\<rparr> in
      if spawn_ok then (True, a0\<lparr>is_running_flag := True, stop_reading := False\<rparr>)
      else (False, a0))"

definition stop :: "pty_agent \<Rightarrow> pty_agent" where
  "stop a = a\<lparr>stop_reading := True, is_running_flag := False\<rparr>"

section \<open>Patterns\<close>

text \<open>
  The interactive-prompt patterns are regular expressions, searched with
  \<open>re.search(pattern, text, re.IGNORECASE)\<close>. A pattern is matched against a whole text
  by feeding it the characters one by one.
\<close>

datatype pattern =
    Fail
  | Empty
  | One_of "pychar \<Rightarrow> bool"
  | Then pattern pattern
  | Or pattern pattern
  | Many pattern

fun can_end :: "pattern \<Rightarrow> bool" where
  "can_end Fail = False"
| "can_end Empty = True"
| "can_end (One_of cls) = False"
| "can_end (Then p q) = (can_end p \<and> can_end q)"
| "can_end (Or p q) = (can_end p \<or> can_end q)"
| "can_end (Many p) = True"

fun feed :: "pattern \<Rightarrow> pychar \<Rightarrow> pattern" where
  "feed Fail c = Fail"
| "feed Empty c = Fail"
| "feed (One_of cls) c = (if cls c then Empty else Fail)"
| "feed (Then p q) c = (if can_end p then Or (Then (feed p c) q) (feed q c) else Then (feed p c) q)"
| "feed (Or p q) c = Or (feed p c) (feed q c)"
| "feed (Many p) c = Then (feed p c) (Many p)"

fun fullmatch :: "pattern \<Rightarrow> pystr \<Rightarrow> bool" where
  "fullmatch p [] = can_end p"
| "fullmatch p (c # cs) = fullmatch (feed p c) cs"

fun seqs :: "pattern list \<Rightarrow> pattern" where
  "seqs [] = Empty"
| "seqs (p # ps) = Then p (seqs ps)"

text \<open>
  Every prompt pattern ends in \<open>\s*$\<close>, and \<open>$\<close> holds at the end of the text or before a
  last newline, which \<open>\s*\<close> could have taken as well: \<open>re.search\<close> finds such a pattern
  exactly when the whole text is anything, then the pattern up to its \<open>$\<close>.
\<close>

definition search_to_end :: "pattern \<Rightarrow> pystr \<Rightarrow> bool" where
  "search_to_end p s = fullmatch (Then (Many (One_of (\<lambda>c. True))) p) s"

section \<open>The Python library\<close>

text \<open>
  Three functions of the Python library are taken as given rather than written out:
  \<open>str.lower\<close> (the Unicode case tables), the built-in \<open>hash\<close> on texts (seeded per
  process), and when a character of the text matches a literal character of a pattern under
  \<open>re.IGNORECASE\<close>. Everything proved holds for any choice of them.
\<close>

record runtime =
  str_lower :: "pystr \<Rightarrow> pystr"
  str_hash :: "pystr \<Rightarrow> int"
  char_ieq :: "pychar \<Rightarrow> pychar \<Rightarrow> bool"

text \<open>A literal piece of a pattern under \<open>re.IGNORECASE\<close>.\<close>

fun literal :: "runtime \<Rightarrow> pystr \<Rightarrow> pattern" where
  "literal py [] = Empty"
| "literal py (x # xs) = Then (One_of (char_ieq py x)) (literal py xs)"

text \<open>
  \<open>prompt_patterns\<close>, in the order of the source; \<open>dots\<close> is \<open>.*\<close> (no newline) and
  \<open>ws\<close> is \<open>\s*\<close>.
  \<^verbatim>\<open>
  r"\[y/N\]\s*$", r"\[Y/n\]\s*$", r"\(y/n\)\s*$", r"\(Y/N\)\s*$",
  r"Continue\?\s*$", r"Proceed\?\s*$", r"Are you sure\?\s*$",
  r"Enter .*:\s*$", r"Password:\s*$",
  r"Press.*Enter.*to.*continue\s*$", r"Press.*any.*key\s*$",
  r"\[.*\]\s*$", r"Press .*to exit\s*$", r"Press .* to return\s*$"
  \<close>
\<close>

definition dots :: pattern where
  "dots = Many (One_of (\<lambda>c. c \<noteq> 10))"

definition ws :: pattern where
  "ws = Many (One_of isspace)"

definition prompt_patterns :: "runtime \<Rightarrow> pattern list" where
  "prompt_patterns py =
     [seqs [literal py (lit ''[y/N]''), ws],
      seqs [literal py (lit ''[Y/n]''), ws],
      seqs [literal py (lit ''(y/n)''), ws],
      seqs [literal py (lit ''(Y/N)''), ws],
      seqs [literal py (lit ''Continue?''), ws],
      seqs [literal py (lit ''Proceed?''), ws],
      seqs [literal py (lit ''Are you sure?''), ws],
      seqs [literal py (lit ''Enter ''), dots, literal py (lit '':''), ws],
      seqs [literal py (lit ''Password:''), ws],
      seqs [literal py (lit ''Press''), dots, literal py (lit ''Enter''), dots,
            literal py (lit ''to''), dots, literal py (lit ''continue''), ws],
      seqs [literal py (lit ''Press''), dots, literal py (lit ''any''), dots,
            literal py (lit ''key''), ws],
      seqs [literal py (lit ''[''), dots, literal py (lit '']''), ws],
      seqs [literal py (lit ''Press ''), dots, literal py (lit ''to exit''), ws],
      seqs [literal py (lit ''Press ''), dots, literal py (lit '' to return''), ws]]"

section \<open>Output processing\<close>

text \<open>
  The glyph literals of the source file, read as UTF-8, are three code points each: the
  bytes of a box-drawing character seen through a one-byte code page (U+00E2, then U+2022
  or U+201D, then the third). They are taken as the file has them.
\<close>

definition glyph_arc_down_right :: pystr where "glyph_arc_down_right = [226, 8226, 173]"
definition glyph_arc_up_right :: pystr where "glyph_arc_up_right = [226, 8226, 176]"
definition glyph_light_vertical :: pystr where "glyph_light_vertical = [226, 8221, 8218]"
definition glyph_heavy_vertical :: pystr where "glyph_heavy_vertical = [226, 8221, 402]"
definition glyph_arc_down_left :: pystr where "glyph_arc_down_left = [226, 8226, 174]"
definition glyph_arc_up_left :: pystr where "glyph_arc_up_left = [226, 8226, 175]"

text \<open>The characters of the class in \<open>is_box_line\<close>'s pattern, whitespace apart.\<close>

definition box_chars :: "pychar list" where
  "box_chars = [226, 8221, 8218, 226, 8221, 402, 226, 8226, 173, 226, 8226, 176,
                226, 8226, 174, 226, 8226, 175]"

text \<open>
  \<open>bool(re.match(r"^[\s...]+$", s))\<close>: one or more characters, all of the class. (A last
  newline left before \<open>$\<close> is whitespace, so of the class too.)
\<close>

definition is_box_line :: "pystr \<Rightarrow> bool" where
  "is_box_line s \<longleftrightarrow> s \<noteq> [] \<and> list_all (\<lambda>c. isspace c \<or> c \<in> set box_chars) s"

definition is_welcome_screen :: "runtime \<Rightarrow> agent_config \<Rightarrow> pystr \<Rightarrow> bool" where
  "is_welcome_screen py cfg clean_output =
     list_ex (\<lambda>keyword. substr_in keyword (str_lower py clean_output))
       (cfg_get (cfg_welcome_keywords cfg) [lit ''cline cli''])"

definition is_mode_switch :: "runtime \<Rightarrow> agent_config \<Rightarrow> pystr \<Rightarrow> bool" where
  "is_mode_switch py cfg clean_output =
     list_ex (\<lambda>keyword. substr_in keyword (str_lower py clean_output))
       (cfg_get (cfg_mode_keywords cfg)
          [lit ''switch to plan'', lit ''switch to act'', lit ''plan mode'', lit ''act mode''])"

definition is_mostly_empty_ui :: "pystr \<Rightarrow> bool" where
  "is_mostly_empty_ui clean_output \<longleftrightarrow>
     (strip clean_output \<in> set [glyph_arc_down_right, glyph_arc_up_right, glyph_light_vertical,
                                 glyph_heavy_vertical, glyph_arc_down_left, glyph_arc_up_left]
      \<or> is_box_line (strip clean_output))
     \<and> length (strip clean_output) \<le> 3"

text \<open>
  \<open>_process_output\<close>, on one chunk read at time \<open>now\<close>: a filtered chunk returns early;
  otherwise the first prompt pattern found sets the prompt state, and the cleaned chunk is
  appended to the queue in either case.
\<close>

definition process_output :: "runtime \<Rightarrow> pty_agent \<Rightarrow> real \<Rightarrow> pystr \<Rightarrow> pty_agent" where
  "process_output py a now output =
     (let clean_output = strip_ansi_codes output in
      if \<not> is_welcome_screen py (config a) clean_output
         \<and> \<not> is_mode_switch py (config a) clean_output
         \<and> is_mostly_empty_ui clean_output
      then a
      else
        (let a1 = (if list_ex (\<lambda>p. search_to_end p clean_output) (prompt_patterns py)
                   then a\<lparr>waiting_for_input := True, input_prompt := strip clean_output,
                          last_prompt_time := now\<rparr>
                   else a)
         in a1\<lparr>output_queue := deque_append 100 (output_queue a1) clean_output\<rparr>))"

text \<open>The reader thread over the chunks it reads, each with the time it was read.\<close>

fun reader :: "runtime \<Rightarrow> pty_agent \<Rightarrow> (real \<times> pystr) list \<Rightarrow> pty_agent" where
  "reader py a [] = a"
| "reader py a ((now, output) # chunks) = reader py (process_output py a now output) chunks"

section \<open>AgentChatBridge\<close>

text \<open>
  The texts the bridge replies with (\<open>update.message.reply_text\<close>), one constructor for
  each literal of the source: "Unauthorized", "Agent already running", "Agent started" (with
  the list of commands), "Failed to start agent", "Agent stopped", "Status: ..." (running or
  stopped, and whether waiting for input), "Agent not running. Use /start",
  "Command sent: " with the text, and an output's content.
\<close>

datatype reply =
    Unauthorized
  | Already_running
  | Agent_started
  | Failed_to_start
  | Agent_stopped
  | Status bool bool
  | Not_running
  | Command_sent_ack pystr
  | Output_text pystr

text \<open>
  The bridge. \<open>user_id\<close> is \<open>int(self.user_id)\<close> (\<open>main\<close> refuses an identifier that is not
  numeric). \<open>output_monitor_task\<close> is \<open>None\<close> or the task created, numbered. \<open>replies\<close> and
  \<open>sent\<close> are the calls made to the chat library (\<open>reply_text\<close> and
  \<open>bot.send_message\<close>, with the chat id), and \<open>relay_launches\<close> counts the calls of
  \<open>asyncio.create_task(self._output_monitor())\<close>.
\<close>

record bridge =
  agent :: pty_agent
  user_id :: int
  output_monitor_task :: "nat option"
  replies :: "reply list"
  sent :: "(int \<times> pystr) list"
  relay_launches :: nat

definition AgentChatBridge :: "pty_agent \<Rightarrow> int \<Rightarrow> bridge" where
  "AgentChatBridge a uid =
     \<lparr>agent = a, user_id = uid, output_monitor_task = None, replies = [], sent = [],
      relay_launches = 0\<rparr>"

text \<open>An incoming update: \<open>update.effective_user.id\<close> and \<open>update.message.text\<close>.\<close>

record update =
  effective_user_id :: int
  msg_text :: pystr

definition reply_text :: "bridge \<Rightarrow> reply \<Rightarrow> bridge" where
  "reply_text b r = b\<lparr>replies := replies b @ [r]\<rparr>"


subsection \<open>handle_command\<close>

definition handle_command :: "bridge \<Rightarrow> update \<Rightarrow> bool \<Rightarrow> bridge" where
  "handle_command b u spawn_ok =
     (if effective_user_id u \<noteq> user_id b then reply_text b Unauthorized
      else
        (let cmd = msg_text u in
         if cmd = lit ''/start'' then
           (if is_running (agent b) then reply_text b Already_running
            else
              (let (started, a') = start (agent b) spawn_ok;
                   b1 = b\<lparr>agent := a'\<rparr>
               in if started then
                    (let b2 = reply_text b1 Agent_started in
                     if output_monitor_task b2 = None
                     then b2\<lparr>output_monitor_task := Some (relay_launches b2 + 1),
                             relay_launches := relay_launches b2 + 1\<rparr>
                     else b2)
                  else reply_text b1 Failed_to_start))
         else if cmd = lit ''/stop'' then
           reply_text (b\<lparr>agent := stop (agent b)\<rparr>) Agent_stopped
         else if cmd = lit ''/status'' then
           reply_text b (Status (is_running (agent b)) (waiting_for_input (agent b)))
         else b))"

subsection \<open>handle_message\<close>

text \<open>
  \<open>handle_message\<close> on one update. \<open>w\<close> is what the write inside \<open>send_command\<close> does, and
  \<open>chunks\<close> are the chunks the reader thread reads during the two-second wait before
  \<open>get_output\<close>. The value \<open>send_command\<close> returns is dropped, as in the source.
\<close>

definition handle_message ::
  "runtime \<Rightarrow> bridge \<Rightarrow> update \<Rightarrow> write_outcome \<Rightarrow> (real \<times> pystr) list \<Rightarrow> bridge" where
  "handle_message py b u w chunks =
     (if effective_user_id u \<noteq> user_id b then reply_text b Unauthorized
      else if \<not> is_running (agent b) then reply_text b Not_running
      else
        (let message_text = strip (msg_text u);
             (result, a1) = send_command (agent b) message_text w;
             b1 = reply_text (b\<lparr>agent := a1\<rparr>) (Command_sent_ack message_text);
             (output, a2) = get_output (reader py (agent b1) chunks);
             b2 = b1\<lparr>agent := a2\<rparr>
         in case output of
              Some m \<Rightarrow> reply_text b2 (Output_text (content m))
            | None \<Rightarrow> b2))"

subsection \<open>The relay loop\<close>










section \<open>Vocabulary for the properties\<close>


section \<open>Example states\<close>

text \<open>
  A runtime to evaluate examples with: case folding on the ASCII letters only, and a
  checksum for \<open>hash\<close>.
\<close>

definition ascii_lower :: "pychar \<Rightarrow> pychar" where
  "ascii_lower c = (if 65 \<le> c \<and> c \<le> 90 then c + 32 else c)"

definition ascii_runtime :: runtime where
  "ascii_runtime =
     \<lparr>str_lower = map ascii_lower,
      str_hash = (\<lambda>s. int (length s) + int (sum_list s)),
      char_ieq = (\<lambda>x c. ascii_lower c = ascii_lower x)\<rparr>"

text \<open>The configuration that \<open>main\<close> builds.\<close>

definition cline_config :: agent_config where
  "cline_config =
     \<lparr>cfg_name = Some (lit ''Cline''),
      cfg_welcome_keywords = Some [lit ''cline cli''],
      cfg_mode_keywords =
        Some [lit ''switch to plan'', lit ''switch to act'', lit ''plan mode'', lit ''act mode''],
      cfg_ui_indicators =
        Some [glyph_arc_down_right, glyph_arc_up_right, glyph_light_vertical,
              glyph_heavy_vertical, lit ''/plan or /act''],
      cfg_response_markers = Some [lit ''###''],
      cfg_repetitive_ui_markers = Some [lit ''/plan or /act'']\<rparr>"

definition running_agent :: pty_agent where
  "running_agent = (PTYAgent cline_config)\<lparr>is_running_flag := True\<rparr>"

text \<open>The running agent after its reader has read a confirmation question.\<close>

definition prompted_agent :: pty_agent where
  "prompted_agent = process_output ascii_runtime running_agent 1 (lit ''ok? [y/N] '')"

text \<open>Fifty fragments of a hundred characters each in the queue: 5000 characters.\<close>

definition chatty_agent :: pty_agent where
  "chatty_agent = running_agent\<lparr>output_queue := replicate 50 (replicate 100 120)\<rparr>"

text \<open>A fragment of 4001 characters at the head of the queue, and one behind it.\<close>

definition stuck_agent :: pty_agent where
  "stuck_agent = running_agent\<lparr>output_queue := [replicate 4001 120, lit ''next'']\<rparr>"

text \<open>An agent whose configured welcome keyword is a bullet, and a fragment of two bullets.\<close>

definition bullet_agent :: pty_agent where
  "bullet_agent = PTYAgent (cline_config\<lparr>cfg_welcome_keywords := Some [[8226]]\<rparr>)"

definition sparse_fragment :: pystr where
  "sparse_fragment = [8226, 8226]"

text \<open>A dimmed vertical border and a newline, as the terminal sends them.\<close>

definition border_chunk :: pystr where
  "border_chunk = [27, 91, 50, 109] @ glyph_light_vertical @ [27, 91, 48, 109, 10]"

text \<open>Bridges for user 42, on a new agent and on a running one, and updates from that user.\<close>

definition fresh_bridge :: bridge where
  "fresh_bridge = AgentChatBridge (PTYAgent cline_config) 42"

definition running_bridge :: bridge where
  "running_bridge = AgentChatBridge running_agent 42"

definition start_update :: update where
  "start_update = \<lparr>effective_user_id = 42, msg_text = lit ''/start''\<rparr>"





definition ls_update :: update where
  "ls_update = \<lparr>effective_user_id = 42, msg_text = lit ''ls''\<rparr>"

definition io_error :: pystr where
  "io_error = lit ''[Errno 5] Input/output error''"




section \<open>Properties of get_output\<close>

lemma deque_appendleft_id: "length q < n \<Longrightarrow> deque_appendleft n x q = x # q"
  by (simp add: deque_appendleft_def)

text \<open>
  The queue is a deque of at most 100 fragments: it starts empty, and no operation makes it
  longer than that.
\<close>

lemma deque_append_length: "length (deque_append n q x) \<le> n"
  by (simp add: deque_append_def)

lemma drain_queue_length: "length (snd (drain c q)) \<le> length q"
  by (induction q arbitrary: c) (auto simp: deque_appendleft_def le_SucI)

lemma drain_split:
  "length q \<le> 100 \<Longrightarrow> length c \<le> 4000 \<Longrightarrow>
   \<exists>k \<le> length q. drain c q = (c @ concat (take k q), drop k q) \<and>
      length (c @ concat (take k q)) \<le> 4000 \<and>
      (k < length q \<longrightarrow> length (c @ concat (take k q)) = 4000 \<or> 4000 < length (c @ concat (take k q)) + length (q ! k))"
proof (induction q arbitrary: c)
  case Nil
  then show ?case by simp
next
  case (Cons chunk q)
  show ?case
  proof (cases "length c < 4000 \<and> length (c @ chunk) \<le> 4000")
    case True
    from Cons.prems have "length q \<le> 100" by simp
    from Cons.IH[OF this, of "c @ chunk"] True
    obtain k where k: "k \<le> length q" "drain (c @ chunk) q = ((c @ chunk) @ concat (take k q), drop k q)"
      "length ((c @ chunk) @ concat (take k q)) \<le> 4000"
      "k < length q \<longrightarrow> length ((c @ chunk) @ concat (take k q)) = 4000 \<or> 4000 < length ((c @ chunk) @ concat (take k q)) + length (q ! k)"
      by auto
    show ?thesis
      by (rule exI[of _ "Suc k"]) (use k True in auto)
  next
    case False
    show ?thesis
      by (rule exI[of _ 0]) (use False Cons.prems in \<open>auto simp: deque_appendleft_id\<close>)
  qed
qed

lemma drain_all: "length (c @ concat q) < 4000 \<Longrightarrow> drain c q = (c @ concat q, [])"
  by (induction q arbitrary: c) auto

lemma as_message_Nil: "as_message a [] = None"
  by (simp add: as_message_def strip_def)

lemma as_message_queue: "as_message (a\<lparr>output_queue := q\<rparr>) c = as_message a c"
  by (simp add: as_message_def name_def)

lemma get_output_drain:
  "get_output a = (as_message a (fst (drain [] (output_queue a))), a\<lparr>output_queue := snd (drain [] (output_queue a))\<rparr>)"
  by (cases "output_queue a") (auto simp: get_output_def as_message_def strip_def split: prod.splits)

lemma strip_length: "length (strip s) \<le> length s"
proof -
  have "length (dropWhile isspace (rev (dropWhile isspace s))) \<le> length (rev (dropWhile isspace s))"
    by (rule length_dropWhile_le)
  also have "\<dots> \<le> length s" by (simp add: length_dropWhile_le)
  finally show ?thesis by (simp add: strip_def)
qed

lemma as_message_content:
  "as_message a c = Some msg \<Longrightarrow> content msg \<noteq> [] \<and> length (content msg) \<le> length c"
  using strip_length[of c] by (auto simp: as_message_def split: if_splits)

lemma get_output_single:
  assumes "length (output_queue a) \<le> 100"
  shows "\<exists>k \<le> length (output_queue a).
           get_output a = (as_message a (concat (take k (output_queue a))), a\<lparr>output_queue := drop k (output_queue a)\<rparr>) \<and>
           length (concat (take k (output_queue a))) \<le> 4000 \<and>
           (k < length (output_queue a) \<longrightarrow>
              length (concat (take k (output_queue a))) = 4000 \<or>
              4000 < length (concat (take k (output_queue a))) + length (output_queue a ! k))"
  using drain_split[OF assms, of "[]"] by (auto simp: get_output_drain)

lemma get_output_rest:
  assumes "length (concat q) < 4000"
  shows "get_output (a\<lparr>output_queue := q\<rparr>) = (as_message a (concat q), a\<lparr>output_queue := []\<rparr>)"
  using drain_all[of "[]" q] assms by (simp add: get_output_drain as_message_queue)

lemma queue_bound_kept:
  "length (output_queue a) \<le> 100 \<Longrightarrow>
     length (output_queue (process_output py a now out)) \<le> 100
   \<and> length (output_queue (snd (get_output a))) \<le> 100
   \<and> length (output_queue (snd (send_command a c w))) \<le> 100"
  using drain_queue_length[of "[]" "output_queue a"]
  by (cases w) (auto simp: process_output_def Let_def deque_append_length get_output_drain send_command_def)

text \<open>
  Claim C2. Whatever the queue holds (a deque of at most 100 fragments), \<open>get_output\<close>
  takes the \<open>k\<close> oldest fragments, for some \<open>k\<close>, and leaves the others in the queue in
  their order; the \<open>k\<close> fragments together have at most 4000 characters, and if fragments
  are left then the text is 4000 long or the next fragment would push it over 4000: that
  fragment is put back whole. A first fragment of at most 4000 characters is always taken.
  What is returned is the trimmed text as an \<open>AGENT_OUTPUT\<close> message, of at most 4000
  characters, or nothing when the trimmed text is empty, as with an empty queue. When no
  fragment is longer than \<open>m\<close> and all of them together are at most \<open>8000 - m\<close> long
  (fragments of 100 characters making 5000, say), the next call returns all the rest and
  empties the queue.
\<close>

theorem get_output_soft_cap:
  assumes "length (output_queue a) \<le> 100"
  shows "\<exists>k \<le> length (output_queue a).
      get_output a = (as_message a (concat (take k (output_queue a))),
                      a\<lparr>output_queue := drop k (output_queue a)\<rparr>)
    \<and> length (concat (take k (output_queue a))) \<le> 4000
    \<and> (k < length (output_queue a) \<longrightarrow>
          length (concat (take k (output_queue a))) = 4000
          \<or> 4000 < length (concat (take k (output_queue a))) + length (output_queue a ! k))
    \<and> (output_queue a \<noteq> [] \<and> length (hd (output_queue a)) \<le> 4000 \<longrightarrow> 0 < k)
    \<and> (\<forall>msg. fst (get_output a) = Some msg \<longrightarrow> content msg \<noteq> [] \<and> length (content msg) \<le> 4000)
    \<and> ((\<forall>f \<in> set (output_queue a). length f \<le> m) \<and> length (concat (output_queue a)) + m \<le> 8000 \<longrightarrow>
          get_output (a\<lparr>output_queue := drop k (output_queue a)\<rparr>) =
            (as_message a (concat (drop k (output_queue a))), a\<lparr>output_queue := []\<rparr>))"
proof -
  let ?q = "output_queue a"
  from get_output_single[OF assms] obtain k where k: "k \<le> length ?q"
    and out: "get_output a = (as_message a (concat (take k ?q)), a\<lparr>output_queue := drop k ?q\<rparr>)"
    and cap: "length (concat (take k ?q)) \<le> 4000"
    and full: "k < length ?q \<longrightarrow> length (concat (take k ?q)) = 4000
                 \<or> 4000 < length (concat (take k ?q)) + length (?q ! k)"
    by blast
  have progress: "0 < k" if "?q \<noteq> []" "length (hd ?q) \<le> 4000"
  proof (rule ccontr)
    assume "\<not> 0 < k"
    then have "k = 0" by simp
    with full that show False by (cases ?q) auto
  qed
  have bound: "content msg \<noteq> [] \<and> length (content msg) \<le> 4000" if "fst (get_output a) = Some msg" for msg
    using as_message_content[of a "concat (take k ?q)" msg] that out cap by simp
  have total: "length (concat ?q) = length (concat (take k ?q)) + length (concat (drop k ?q))"
    by (metis append_take_drop_id concat_append length_append)
  have second: "get_output (a\<lparr>output_queue := drop k ?q\<rparr>) =
            (as_message a (concat (drop k ?q)), a\<lparr>output_queue := []\<rparr>)"
    if small: "\<forall>f \<in> set ?q. length f \<le> m" and sum: "length (concat ?q) + m \<le> 8000"
  proof (cases "k < length ?q")
    case False
    with k show ?thesis by (simp add: get_output_def as_message_Nil)
  next
    case True
    then have "length (?q ! k) \<le> m" using small by simp
    moreover have "0 < m" if "length (concat (take k ?q)) = 4000"
    proof (rule ccontr)
      assume "\<not> 0 < m"
      with small have "\<forall>f \<in> set ?q. f = []" by simp
      then have "\<forall>f \<in> set (take k ?q). f = []" by (meson in_set_takeD)
      then have "concat (take k ?q) = []" by simp
      with that show False by simp
    qed
    ultimately have "length (concat (drop k ?q)) < 4000"
      using full True total sum by linarith
    then show ?thesis by (rule get_output_rest)
  qed
  from k out cap full progress bound second show ?thesis by blast
qed

lemma concat_replicate_replicate: "concat (replicate n (replicate m x)) = replicate (n * m) x"
  by (induction n) (simp_all add: replicate_add)

theorem get_output_soft_cap_witness:
  "length (output_queue chatty_agent) \<le> 100
   \<and> list_all (\<lambda>f. length f \<le> 100) (output_queue chatty_agent)
   \<and> length (concat (output_queue chatty_agent)) = 5000
   \<and> get_output chatty_agent =
       (Some \<lparr>mtype = AGENT_OUTPUT, content = replicate 4000 120, sender = lit ''Cline''\<rparr>,
        chatty_agent\<lparr>output_queue := replicate 10 (replicate 100 120)\<rparr>)
   \<and> get_output (chatty_agent\<lparr>output_queue := replicate 10 (replicate 100 120)\<rparr>) =
       (Some \<lparr>mtype = AGENT_OUTPUT, content = replicate 1000 120, sender = lit ''Cline''\<rparr>,
        chatty_agent\<lparr>output_queue := []\<rparr>)"
proof -
  let ?f = "replicate 100 (120::nat)"
  have q: "output_queue chatty_agent = replicate 50 ?f"
    by (simp add: chatty_agent_def)
  have h1: "length (output_queue chatty_agent) \<le> 100"
    by (simp add: q)
  have h2: "\<forall>f \<in> set (output_queue chatty_agent). length f \<le> 100"
    by (simp add: q)
  have h3: "length (concat (output_queue chatty_agent)) = 5000"
    by (simp add: q concat_replicate_replicate)
  from get_output_soft_cap[OF h1, of 100] h2 h3
  obtain k where k: "k \<le> 50"
    and out: "get_output chatty_agent =
        (as_message chatty_agent (concat (take k (replicate 50 ?f))),
         chatty_agent\<lparr>output_queue := drop k (replicate 50 ?f)\<rparr>)"
    and cap: "length (concat (take k (replicate 50 ?f))) \<le> 4000"
    and full: "k < 50 \<longrightarrow> length (concat (take k (replicate 50 ?f))) = 4000
               \<or> 4000 < length (concat (take k (replicate 50 ?f))) + length (replicate 50 ?f ! k)"
    and rest: "get_output (chatty_agent\<lparr>output_queue := drop k (replicate 50 ?f)\<rparr>) =
        (as_message chatty_agent (concat (drop k (replicate 50 ?f))), chatty_agent\<lparr>output_queue := []\<rparr>)"
    unfolding q by auto
  have len: "length (concat (take k (replicate 50 ?f))) = k * 100"
    using k by (simp add: concat_replicate_replicate min_def)
  from cap full len k have "k = 40"
    by (cases "k < 50") auto
  have msg: "as_message chatty_agent (replicate n 120) =
      Some \<lparr>mtype = AGENT_OUTPUT, content = replicate n 120, sender = lit ''Cline''\<rparr>" if "0 < n" for n
    using that
    by (simp add: as_message_def strip_def isspace_def name_def chatty_agent_def running_agent_def
        PTYAgent_def cline_config_def cfg_get_def)
  from out rest h1 h2 h3 show ?thesis
    unfolding \<open>k = 40\<close>
    by (simp add: concat_replicate_replicate msg list_all_iff)
qed

text \<open>
  Claim C9. When the oldest fragment of the queue (a deque of at most 100 fragments) is
  longer than 4000 characters, \<open>get_output\<close> pops it, puts it back and returns nothing:
  the agent is exactly as before. So any number of calls in a row return nothing each, and
  neither that fragment nor those behind it are delivered.
\<close>

theorem get_output_oversized_head:
  assumes "length (output_queue a) \<le> 100" and "output_queue a = f # q" and "4000 < length f"
  shows "get_output a = (None, a) \<and> get_outputs n a = (replicate n None, a)"
proof -
  have one: "get_output a = (None, a)"
    using assms by (simp add: get_output_def deque_appendleft_id strip_def)
  have "get_outputs n a = (replicate n None, a)"
    by (induction n) (simp_all add: one)
  with one show ?thesis by simp
qed

theorem get_output_oversized_head_witness:
  "length (output_queue stuck_agent) \<le> 100
   \<and> output_queue stuck_agent = [replicate 4001 120, lit ''next'']
   \<and> 4000 < length (replicate 4001 (120::nat))
   \<and> get_output stuck_agent = (None, stuck_agent)
   \<and> get_outputs 7 stuck_agent = (replicate 7 None, stuck_agent)"
proof -
  have q: "output_queue stuck_agent = replicate 4001 120 # [lit ''next'']"
    by (simp add: stuck_agent_def)
  have len: "length (output_queue stuck_agent) \<le> 100"
    by (simp add: stuck_agent_def)
  have big: "4000 < length (replicate 4001 (120::nat))"
    by simp
  from get_output_oversized_head[OF len q big, of 7] q len show ?thesis
    by simp
qed

section \<open>Properties of send_command\<close>

text \<open>
  The running agent after the reader has read \<open>ok? [y/N]\<close>: the prompt is recorded.
\<close>

lemma prompted_agent_eq:
  "prompted_agent = running_agent\<lparr>waiting_for_input := True, input_prompt := lit ''ok? [y/N]'',
      last_prompt_time := 1, output_queue := [lit ''ok? [y/N] '']\<rparr>"
  by (simp add: prompted_agent_def process_output_def running_agent_def PTYAgent_def ascii_runtime_def cline_config_def
     is_welcome_screen_def is_mode_switch_def is_mostly_empty_ui_def is_box_line_def lit_def cfg_get_def Let_def
     escape_len_def strip_def isspace_def deque_append_def ascii_lower_def
     prompt_patterns_def search_to_end_def ws_def dots_def
     glyph_arc_down_right_def glyph_arc_up_right_def glyph_light_vertical_def
     glyph_heavy_vertical_def glyph_arc_down_left_def glyph_arc_up_left_def box_chars_def)

text \<open>
  Claim C1. On a running agent, when the write succeeds, \<open>send_command\<close> returns
  "Command sent", the terminal has received the command text followed by the line
  terminator CR LF (13, 10) and nothing else, and afterwards \<open>waiting_for_input\<close> is
  false and \<open>input_prompt\<close> is empty, whatever they were before.
\<close>

theorem send_command_written:
  assumes "is_running_flag a"
  shows "fst (send_command a command Written) = Command_sent
       \<and> terminal (snd (send_command a command Written)) = terminal a @ command @ [13, 10]
       \<and> \<not> waiting_for_input (snd (send_command a command Written))
       \<and> input_prompt (snd (send_command a command Written)) = []"
  using assms by (simp add: send_command_def)

theorem send_command_written_witness:
  "is_running_flag prompted_agent
   \<and> waiting_for_input prompted_agent
   \<and> input_prompt prompted_agent = lit ''ok? [y/N]''
   \<and> fst (send_command prompted_agent (lit ''y'') Written) = Command_sent
   \<and> terminal (snd (send_command prompted_agent (lit ''y'') Written)) = [121, 13, 10]
   \<and> \<not> waiting_for_input (snd (send_command prompted_agent (lit ''y'') Written))
   \<and> input_prompt (snd (send_command prompted_agent (lit ''y'') Written)) = []"
proof -
  have run: "is_running_flag prompted_agent"
    by (simp add: prompted_agent_eq running_agent_def PTYAgent_def)
  have "terminal prompted_agent = []"
    by (simp add: prompted_agent_eq running_agent_def PTYAgent_def)
  with send_command_written[OF run, of "lit ''y''"] run show ?thesis
    by (simp add: prompted_agent_eq lit_def)
qed

text \<open>
  Claim C10. On a running agent \<open>send_command\<close> clears \<open>waiting_for_input\<close> and
  \<open>input_prompt\<close> before it writes: they are cleared whatever the write does. When the
  write raises, the call returns the error with the exception's text, and the agent differs
  from before only in the cleared prompt state (and the logged call): nothing has reached
  the terminal and the prompt state is not put back.
\<close>

theorem send_command_clears_prompt_before_write:
  assumes "is_running_flag a"
  shows "\<not> waiting_for_input (snd (send_command a command w))
       \<and> input_prompt (snd (send_command a command w)) = []
       \<and> send_command a command (Raises e) =
           (Error_exception e,
            a\<lparr>send_command_calls := send_command_calls a @ [command],
              waiting_for_input := False, input_prompt := []\<rparr>)"
  using assms by (cases w) (simp_all add: send_command_def)

theorem send_command_clears_prompt_before_write_witness:
  "is_running_flag prompted_agent
   \<and> waiting_for_input prompted_agent
   \<and> fst (send_command prompted_agent (lit ''y'') (Raises (lit ''[Errno 5] Input/output error'')))
       = Error_exception (lit ''[Errno 5] Input/output error'')
   \<and> \<not> waiting_for_input (snd (send_command prompted_agent (lit ''y'') (Raises (lit ''[Errno 5] Input/output error''))))
   \<and> input_prompt (snd (send_command prompted_agent (lit ''y'') (Raises (lit ''[Errno 5] Input/output error'')))) = []
   \<and> terminal (snd (send_command prompted_agent (lit ''y'') (Raises (lit ''[Errno 5] Input/output error'')))) = []"
proof -
  have run: "is_running_flag prompted_agent"
    by (simp add: prompted_agent_eq running_agent_def PTYAgent_def)
  have "terminal prompted_agent = []"
    by (simp add: prompted_agent_eq running_agent_def PTYAgent_def)
  with send_command_clears_prompt_before_write[OF run, of "lit ''y''" "Raises (lit ''[Errno 5] Input/output error'')" "lit ''[Errno 5] Input/output error''"] run
  show ?thesis
    by (simp add: prompted_agent_eq)
qed

section \<open>Properties of the output processing\<close>


lemma deque_append_last: "0 < n \<Longrightarrow> last (deque_append n q x) = x"
  by (simp add: deque_append_def)

lemmas glyph_defs = glyph_arc_down_right_def glyph_arc_up_right_def glyph_light_vertical_def
  glyph_heavy_vertical_def glyph_arc_down_left_def glyph_arc_up_left_def box_chars_def

text \<open>
  Each of the six glyphs is made of characters of the class, so the rule comes to: the
  trimmed fragment has one to three characters, all of them box characters or whitespace.
\<close>

lemma is_mostly_empty_ui_iff:
  "is_mostly_empty_ui c \<longleftrightarrow> is_box_line (strip c) \<and> length (strip c) \<le> 3"
  by (auto simp: is_mostly_empty_ui_def is_box_line_def glyph_defs)

text \<open>
  Claim C3. A cleaned fragment that the "mostly empty" rule classifies as decorative, and
  that has no welcome keyword and no mode keyword, leaves the agent as it was: it is not
  appended to the queue. A fragment with a welcome or a mode keyword (or one the rule does
  not classify as decorative) is appended as the newest entry of the queue, however sparse
  it is.
\<close>

theorem process_output_decorative_filter:
  "(is_mostly_empty_ui (strip_ansi_codes output)
      \<and> \<not> is_welcome_screen py (config a) (strip_ansi_codes output)
      \<and> \<not> is_mode_switch py (config a) (strip_ansi_codes output)
    \<longrightarrow> process_output py a now output = a)
   \<and> (is_welcome_screen py (config a) (strip_ansi_codes output)
        \<or> is_mode_switch py (config a) (strip_ansi_codes output)
        \<or> \<not> is_mostly_empty_ui (strip_ansi_codes output)
    \<longrightarrow> output_queue (process_output py a now output) =
          deque_append 100 (output_queue a) (strip_ansi_codes output)
        \<and> last (output_queue (process_output py a now output)) = strip_ansi_codes output)"
proof (intro conjI impI)
  assume "is_mostly_empty_ui (strip_ansi_codes output)
      \<and> \<not> is_welcome_screen py (config a) (strip_ansi_codes output)
      \<and> \<not> is_mode_switch py (config a) (strip_ansi_codes output)"
  then show "process_output py a now output = a"
    by (simp add: process_output_def)
next
  assume kept: "is_welcome_screen py (config a) (strip_ansi_codes output)
        \<or> is_mode_switch py (config a) (strip_ansi_codes output)
        \<or> \<not> is_mostly_empty_ui (strip_ansi_codes output)"
  then show queued: "output_queue (process_output py a now output) =
          deque_append 100 (output_queue a) (strip_ansi_codes output)"
    by (auto simp: process_output_def Let_def)
  show "last (output_queue (process_output py a now output)) = strip_ansi_codes output"
    by (simp add: queued deque_append_last)
qed

theorem process_output_decorative_filter_witness:
  "is_mostly_empty_ui (strip_ansi_codes sparse_fragment)
   \<and> length (strip_ansi_codes sparse_fragment) = 2
   \<and> is_welcome_screen ascii_runtime (config bullet_agent) (strip_ansi_codes sparse_fragment)
   \<and> output_queue (process_output ascii_runtime bullet_agent 1 sparse_fragment) = [sparse_fragment]
   \<and> is_mostly_empty_ui (strip_ansi_codes border_chunk)
   \<and> \<not> is_welcome_screen ascii_runtime (config running_agent) (strip_ansi_codes border_chunk)
   \<and> \<not> is_mode_switch ascii_runtime (config running_agent) (strip_ansi_codes border_chunk)
   \<and> process_output ascii_runtime running_agent 1 border_chunk = running_agent"
proof -
  have clean1: "strip_ansi_codes sparse_fragment = sparse_fragment"
    by (simp add: sparse_fragment_def)
  have sparse: "is_mostly_empty_ui sparse_fragment"
    by (simp add: sparse_fragment_def is_mostly_empty_ui_def is_box_line_def strip_def isspace_def glyph_defs)
  have kw: "is_welcome_screen ascii_runtime (config bullet_agent) sparse_fragment"
    by (simp add: sparse_fragment_def is_welcome_screen_def bullet_agent_def PTYAgent_def
        cline_config_def cfg_get_def ascii_runtime_def ascii_lower_def)
  have q: "output_queue bullet_agent = []"
    by (simp add: bullet_agent_def PTYAgent_def)
  have clean2: "strip_ansi_codes border_chunk = glyph_light_vertical @ [10]"
    by (simp add: border_chunk_def glyph_defs escape_len_def fe_char_def param_char_def
        inter_char_def final_char_def)
  have border: "is_mostly_empty_ui (glyph_light_vertical @ [10])"
    by (simp add: is_mostly_empty_ui_def strip_def isspace_def glyph_defs)
  have no_welcome: "\<not> is_welcome_screen ascii_runtime (config running_agent) (glyph_light_vertical @ [10])"
    by (simp add: is_welcome_screen_def running_agent_def PTYAgent_def cline_config_def
        cfg_get_def ascii_runtime_def ascii_lower_def glyph_defs lit_def)
  have no_mode: "\<not> is_mode_switch ascii_runtime (config running_agent) (glyph_light_vertical @ [10])"
    by (simp add: is_mode_switch_def running_agent_def PTYAgent_def cline_config_def
        cfg_get_def ascii_runtime_def ascii_lower_def glyph_defs lit_def)
  from process_output_decorative_filter[of sparse_fragment ascii_runtime bullet_agent 1]
    process_output_decorative_filter[of border_chunk ascii_runtime running_agent 1]
    clean1 sparse kw q clean2 border no_welcome no_mode
  show ?thesis
    by (simp add: deque_append_def sparse_fragment_def)
qed

section \<open>Properties of the relay loop\<close>














section \<open>Properties of handle_command\<close>

text \<open>
  Claim C7. \<open>/start\<close> while the agent is running starts nothing: the agent (and with it
  the count of \<open>start\<close> calls), the monitor task and the count of relay-loop launches are
  as before, and the only effect is the reply ("Agent already running" to the authorized
  user). So a second \<open>/start\<close> after a successful first one changes nothing but the
  replies: the launches of the relay loop stay at those after the first.
\<close>

theorem start_while_running_is_noop:
  assumes "msg_text u = lit ''/start''"
  shows "(is_running (agent b) \<longrightarrow>
            agent (handle_command b u spawn_ok) = agent b
          \<and> output_monitor_task (handle_command b u spawn_ok) = output_monitor_task b
          \<and> relay_launches (handle_command b u spawn_ok) = relay_launches b
          \<and> replies (handle_command b u spawn_ok) =
              replies b @ [if effective_user_id u = user_id b then Already_running else Unauthorized])
       \<and> (\<not> is_running (agent b) \<and> effective_user_id u = user_id b \<longrightarrow>
            handle_command (handle_command b u True) u spawn_ok =
              (handle_command b u True)
                \<lparr>replies := replies (handle_command b u True) @ [Already_running]\<rparr>)"
  using assms
  by (simp add: handle_command_def reply_text_def start_def is_running_def Let_def)

lemma started_bridge:
  "handle_command fresh_bridge start_update True =
     fresh_bridge\<lparr>agent := (PTYAgent cline_config)\<lparr>start_calls := 1, is_running_flag := True\<rparr>,
                  replies := [Agent_started], output_monitor_task := Some 1, relay_launches := 1\<rparr>"
  by (simp add: handle_command_def fresh_bridge_def start_update_def AgentChatBridge_def PTYAgent_def
      is_running_def start_def reply_text_def)

theorem start_while_running_is_noop_witness:
  "\<not> is_running (agent fresh_bridge)
   \<and> relay_launches fresh_bridge = 0
   \<and> is_running (agent (handle_command fresh_bridge start_update True))
   \<and> relay_launches (handle_command fresh_bridge start_update True) = 1
   \<and> start_calls (agent (handle_command fresh_bridge start_update True)) = 1
   \<and> relay_launches (handle_command (handle_command fresh_bridge start_update True) start_update True) = 1
   \<and> start_calls (agent (handle_command (handle_command fresh_bridge start_update True) start_update True)) = 1
   \<and> output_monitor_task (handle_command (handle_command fresh_bridge start_update True) start_update True) = Some 1
   \<and> replies (handle_command (handle_command fresh_bridge start_update True) start_update True) =
       [Agent_started, Already_running]
   \<and> handle_command (handle_command fresh_bridge start_update True) start_update True =
       (handle_command fresh_bridge start_update True)
         \<lparr>replies := replies (handle_command fresh_bridge start_update True) @ [Already_running]\<rparr>"
proof -
  let ?b1 = "handle_command fresh_bridge start_update True"
  have run: "is_running (agent ?b1)"
    by (simp add: started_bridge is_running_def)
  have cmd: "msg_text start_update = lit ''/start''"
    by (simp add: start_update_def)
  have uid: "effective_user_id start_update = user_id ?b1"
    by (subst started_bridge) (simp add: start_update_def fresh_bridge_def AgentChatBridge_def)
  have fresh: "\<not> is_running (agent fresh_bridge) \<and> relay_launches fresh_bridge = 0"
    by (simp add: fresh_bridge_def AgentChatBridge_def PTYAgent_def is_running_def)
  have uid0: "effective_user_id start_update = user_id fresh_bridge"
    by (simp add: start_update_def fresh_bridge_def AgentChatBridge_def)
  from start_while_running_is_noop[OF cmd, of fresh_bridge True] fresh uid0
  have twice: "handle_command ?b1 start_update True = ?b1\<lparr>replies := replies ?b1 @ [Already_running]\<rparr>"
    by simp
  from start_while_running_is_noop[OF cmd, of ?b1 True] run uid fresh twice show ?thesis
    by (simp add: started_bridge)
qed

section \<open>Properties of handle_message\<close>









lemma strip_lit_ls: "strip (lit ''ls'') = lit ''ls''"
  by (simp add: strip_def lit_def isspace_def)

lemma running_bridge_simps:
  "user_id running_bridge = 42" "is_running (agent running_bridge)"
  "send_command_calls (agent running_bridge) = []" "replies running_bridge = []"
  "terminal (agent running_bridge) = []" "output_queue (agent running_bridge) = []"
  by (simp_all add: running_bridge_def AgentChatBridge_def running_agent_def PTYAgent_def is_running_def)

lemma handle_message_on_running_bridge:
  assumes "effective_user_id u = 42"
  shows "handle_message py running_bridge u w [] =
     running_bridge\<lparr>agent := snd (send_command running_agent (strip (msg_text u)) w),
                    replies := [Command_sent_ack (strip (msg_text u))]\<rparr>"
  using assms
  by (cases w)
     (simp_all add: handle_message_def running_bridge_def AgentChatBridge_def running_agent_def
        PTYAgent_def is_running_def send_command_def get_output_def reply_text_def Let_def)







text \<open>
  Claim C8 at a failing input. The agent is running and the write raises an input/output
  error: \<open>send_command\<close> returns the error, nothing reaches the terminal, and the only
  reply \<open>handle_message\<close> gives is the "Command sent" acknowledgment. (When the agent is
  not running, the reply is "Agent not running. Use /start".)
\<close>

theorem handle_message_acknowledges_failed_write:
  "fst (send_command (agent running_bridge) (lit ''ls'') (Raises io_error)) = Error_exception io_error
   \<and> replies (handle_message ascii_runtime running_bridge ls_update (Raises io_error) [])
       = [Command_sent_ack (lit ''ls'')]
   \<and> terminal (agent (handle_message ascii_runtime running_bridge ls_update (Raises io_error) [])) = []
   \<and> replies (handle_message ascii_runtime fresh_bridge ls_update Written []) = [Not_running]"
proof -
  have u: "effective_user_id ls_update = 42" "strip (msg_text ls_update) = lit ''ls''"
    by (simp_all add: ls_update_def strip_lit_ls)
  have "fst (send_command (agent running_bridge) (lit ''ls'') (Raises io_error)) = Error_exception io_error"
    by (simp add: send_command_def running_bridge_simps(2)[unfolded is_running_def])
  moreover have "handle_message ascii_runtime running_bridge ls_update (Raises io_error) [] =
      running_bridge\<lparr>agent := running_agent\<lparr>send_command_calls := [lit ''ls'']\<rparr>,
                     replies := [Command_sent_ack (lit ''ls'')]\<rparr>"
    using u by (simp add: handle_message_on_running_bridge send_command_def running_agent_def PTYAgent_def)
  moreover have "replies (handle_message ascii_runtime fresh_bridge ls_update Written []) = [Not_running]"
    using u by (simp add: handle_message_def fresh_bridge_def AgentChatBridge_def PTYAgent_def
        is_running_def reply_text_def)
  ultimately show ?thesis
    by (simp add: running_agent_def PTYAgent_def)
qed

end
